theory Spec2Isabelle
  imports Main
begin

section \<open>Values of the JavaScript runtime\<close>

text \<open>
  A field typed \<open>T | null | undefined\<close> holds one of three kinds of value. Fields typed
  \<open>T | null\<close> are modelled by \<open>T option\<close>, with \<open>None\<close> for \<open>null\<close>.
\<close>

datatype 'a optional = Undefined | Null | Value 'a

text \<open>\<open>x ?? null\<close>: both \<open>undefined\<close> and \<open>null\<close> become \<open>null\<close>.\<close>

fun orNull :: "'a optional \<Rightarrow> 'a option" where
  "orNull (Value x) = Some x"
| "orNull _ = None"

text \<open>A \<open>T | null\<close> value read where \<open>T | null | undefined\<close> is expected.\<close>

fun ofNullable :: "'a option \<Rightarrow> 'a optional" where
  "ofNullable None = Null"
| "ofNullable (Some x) = Value x"

text \<open>
  A JavaScript \<open>Date\<close> object holds a time value in milliseconds, or \<open>NaN\<close> (an
  "Invalid Date", as \<open>new Date(undefined)\<close> builds). The time value is taken in local
  time, the time zone being a fixed offset that is folded into it.
\<close>

datatype date = Date int | InvalidDate

text \<open>\<open>a > b\<close> and \<open>a < b\<close> on \<open>Date\<close> objects compare the time values; every
  comparison with \<open>NaN\<close> is false.\<close>

fun date_gt :: "date \<Rightarrow> date \<Rightarrow> bool" where
  "date_gt (Date a) (Date b) = (b < a)"
| "date_gt _ _ = False"

fun date_lt :: "date \<Rightarrow> date \<Rightarrow> bool" where
  "date_lt (Date a) (Date b) = (a < b)"
| "date_lt _ _ = False"

definition msPerDay :: int where
  "msPerDay = 86400000"

text \<open>The time value of midnight of the calendar day that holds the time value \<open>t\<close>.\<close>

definition startOfDay :: "int \<Rightarrow> int" where
  "startOfDay t = t - t mod msPerDay"

text \<open>\<open>isValid\<close> of date-fns: false for \<open>null\<close> and for an Invalid Date.\<close>

fun isValid :: "date option \<Rightarrow> bool" where
  "isValid (Some (Date t)) = True"
| "isValid _ = False"

text \<open>\<open>isSameDay\<close> of date-fns compares the starts of the two days; the start of the day
  of an Invalid Date is \<open>NaN\<close>, which equals nothing.\<close>

fun isSameDay :: "date \<Rightarrow> date \<Rightarrow> bool" where
  "isSameDay (Date a) (Date b) = (startOfDay a = startOfDay b)"
| "isSameDay _ _ = False"

text \<open>
  Modelled from the spec: \<open>isDayInRange\<close> of \<open>common/dateUtils\<close> is imported by the
  component but is not among the sources. The spec says of it that the date "falls within
  \<open>[minDate, maxDate]\<close> (inclusive)"; as its name says, it compares days.
\<close>

fun isDayInRange :: "date option \<Rightarrow> date \<times> date \<Rightarrow> bool" where
  "isDayInRange (Some (Date t)) (Date lo, Date hi) =
     (startOfDay lo \<le> startOfDay t \<and> startOfDay t \<le> startOfDay hi)"
| "isDayInRange _ _ = False"

section \<open>Props and state of DateRangeInput2\<close>

datatype boundary = START | END

type_synonym dateRange = "date option \<times> date option"

text \<open>What the injected \<open>parseDate\<close> prop returns: \<open>Date | false | null\<close>.\<close>

datatype parsed = ParsedFalse | ParsedNull | ParsedDate date

text \<open>
  The props the component logic reads, after \<open>defaultProps\<close> have been applied (so the
  messages and the bounds are always present). The injected \<open>parseDate\<close> and
  \<open>formatDate\<close> are called with \<open>props.locale\<close>, which is folded into them here; the
  injected parser is handed whatever the state holds, which can be \<open>null\<close> (\<open>None\<close>).
  \<open>valueProp\<close> is the prop \<open>value\<close>.
\<close>

record props =
  allowSingleDayRange :: bool
  invalidDateMessage :: string
  maxDate :: date
  minDate :: date
  outOfRangeMessage :: string
  overlappingDatesMessage :: string
  selectAllOnFocus :: bool
  valueProp :: "dateRange optional"
  parseDateProp :: "string option \<Rightarrow> parsed"
  formatDateProp :: "date \<Rightarrow> string"

record state =
  isOpen :: bool
  boundaryToModify :: "boundary option"
  lastFocusedField :: "boundary option"
  formattedMinDateString :: "string option"
  formattedMaxDateString :: "string option"
  isStartInputFocused :: bool
  isEndInputFocused :: bool
  startInputString :: "string optional"
  endInputString :: "string optional"
  startHoverString :: "string optional"
  endHoverString :: "string optional"
  selectedEnd :: "date option"
  selectedStart :: "date option"
  shouldSelectAfterUpdate :: "bool option"
  wasLastFocusChangeDueToHover :: "bool option"
  selectedShortcutIndex :: int

text \<open>
  \<open>DatePickerUtils.getFormattedDateString(date, props, ignoreRange)\<close> belongs to the
  package \<open>@blueprintjs/datetime\<close> and is not among the sources: it is a parameter.
\<close>

record datePickerUtils =
  getFormattedDateString :: "date optional \<Rightarrow> props \<Rightarrow> bool \<Rightarrow> string"

text \<open>The calls the handlers make to the callback props (each through \<open>?.\<close>, so a call
  reaches the host only when it provided the callback).\<close>

datatype callback = OnChange dateRange | OnError dateRange

datatype error = DATERANGEINPUT_NULL_VALUE | TypeError

section \<open>Helpers\<close>

definition validateProps :: "props \<Rightarrow> error + unit" where
  "validateProps p =
     (if valueProp p = Null then Inl DATERANGEINPUT_NULL_VALUE else Inr ())"

definition isControlled :: "props \<Rightarrow> bool" where
  "isControlled p = (valueProp p \<noteq> Undefined)"

fun isInputEmpty :: "string optional \<Rightarrow> bool" where
  "isInputEmpty (Value s) = (length s = 0)"
| "isInputEmpty _ = True"

text \<open>The \<open>values\<close> half of \<open>getStateKeysAndValuesForBoundary\<close>.\<close>

record boundaryValues =
  controlledValue :: "date optional"
  hoverString :: "string optional"
  inputString :: "string optional"
  isInputFocused :: bool
  selectedValue :: "date option"

definition getStateKeysAndValuesForBoundary :: "props \<Rightarrow> state \<Rightarrow> boundary \<Rightarrow> boundaryValues" where
  "getStateKeysAndValuesForBoundary p st b =
     (let controlledRange = valueProp p in
      if b = START then
        \<lparr> controlledValue =
            (case controlledRange of Value r \<Rightarrow> ofNullable (fst r) | _ \<Rightarrow> Undefined),
          hoverString = startHoverString st,
          inputString = startInputString st,
          isInputFocused = isStartInputFocused st,
          selectedValue = selectedStart st \<rparr>
      else
        \<lparr> controlledValue =
            (case controlledRange of Value r \<Rightarrow> ofNullable (snd r) | _ \<Rightarrow> Undefined),
          hoverString = endHoverString st,
          inputString = endInputString st,
          isInputFocused = isEndInputFocused st,
          selectedValue = selectedEnd st \<rparr>)"

text \<open>The \<open>keys\<close> half: \<open>setState({[keys.k]: v})\<close> writes the field of the boundary.\<close>

definition setHoverString :: "boundary \<Rightarrow> string optional \<Rightarrow> state \<Rightarrow> state" where
  "setHoverString b v st =
     (if b = START then st\<lparr>startHoverString := v\<rparr> else st\<lparr>endHoverString := v\<rparr>)"

definition setInputString :: "boundary \<Rightarrow> string optional \<Rightarrow> state \<Rightarrow> state" where
  "setInputString b v st =
     (if b = START then st\<lparr>startInputString := v\<rparr> else st\<lparr>endInputString := v\<rparr>)"

definition setIsInputFocused :: "boundary \<Rightarrow> bool \<Rightarrow> state \<Rightarrow> state" where
  "setIsInputFocused b v st =
     (if b = START then st\<lparr>isStartInputFocused := v\<rparr> else st\<lparr>isEndInputFocused := v\<rparr>)"

definition setSelectedValue :: "boundary \<Rightarrow> date option \<Rightarrow> state \<Rightarrow> state" where
  "setSelectedValue b v st =
     (if b = START then st\<lparr>selectedStart := v\<rparr> else st\<lparr>selectedEnd := v\<rparr>)"

text \<open>The boundary parameter is optional in the source.\<close>

definition getOtherBoundary :: "boundary option \<Rightarrow> boundary" where
  "getOtherBoundary b = (if b = Some START then END else START)"

definition getDateRangeForCallback :: "props \<Rightarrow> state \<Rightarrow> date option \<Rightarrow> boundary option \<Rightarrow> dateRange" where
  "getDateRangeForCallback p st currDate currBoundary =
     (let otherBoundary = getOtherBoundary currBoundary;
          otherDate = selectedValue (getStateKeysAndValuesForBoundary p st otherBoundary)
      in if currBoundary = Some START then (currDate, otherDate) else (otherDate, currDate))"

definition doBoundaryDatesOverlap :: "props \<Rightarrow> state \<Rightarrow> date option \<Rightarrow> boundary \<Rightarrow> bool" where
  "doBoundaryDatesOverlap p st date b =
     (let otherBoundary = getOtherBoundary (Some b);
          otherBoundaryDate = selectedValue (getStateKeysAndValuesForBoundary p st otherBoundary)
      in case (date, otherBoundaryDate) of
           (Some d, Some od) \<Rightarrow>
             if b = START then
               (let isAfter = date_gt d od
                in isAfter \<or> (\<not> allowSingleDayRange p \<and> isSameDay d od))
             else
               (let isBefore = date_lt d od
                in isBefore \<or> (\<not> allowSingleDayRange p \<and> isSameDay d od))
         | _ \<Rightarrow> False)"

definition doesEndBoundaryOverlapStartBoundary :: "props \<Rightarrow> state \<Rightarrow> date \<Rightarrow> boundary \<Rightarrow> bool" where
  "doesEndBoundaryOverlapStartBoundary p st boundaryDate b =
     (if b = START then False else doBoundaryDatesOverlap p st (Some boundaryDate) b)"

definition isDateValidAndInRange :: "props \<Rightarrow> date option \<Rightarrow> bool" where
  "isDateValidAndInRange p date = (isValid date \<and> isDayInRange date (minDate p, maxDate p))"

definition isNextDateRangeValid :: "props \<Rightarrow> state \<Rightarrow> date option \<Rightarrow> boundary \<Rightarrow> bool" where
  "isNextDateRangeValid p st nextDate b =
     (isDateValidAndInRange p nextDate \<and> \<not> doBoundaryDatesOverlap p st nextDate b)"

text \<open>\<open>now\<close> is the time value of \<open>new Date()\<close> at the moment of the call.\<close>

definition parseDate :: "props \<Rightarrow> int \<Rightarrow> string optional \<Rightarrow> date option" where
  "parseDate p now dateString =
     (if dateString = Undefined \<or>
         dateString = Value (outOfRangeMessage p) \<or>
         dateString = Value (invalidDateMessage p)
      then None
      else (case parseDateProp p (orNull dateString) of
              ParsedFalse \<Rightarrow> Some (Date now)
            | ParsedNull \<Rightarrow> None
            | ParsedDate newDate \<Rightarrow> Some newDate))"

definition formatDate :: "props \<Rightarrow> date option \<Rightarrow> string" where
  "formatDate p date =
     (if \<not> isDateValidAndInRange p date then ''''
      else (case date of Some d \<Rightarrow> formatDateProp p d | None \<Rightarrow> ''''))"

section \<open>The effective range and the display string\<close>

text \<open>\<open>fallbackRange[index]\<close> of the optional \<open>NonNullDateRange\<close>.\<close>

fun fallbackAt :: "(date \<times> date) option \<Rightarrow> nat \<Rightarrow> date optional" where
  "fallbackAt None index = Undefined"
| "fallbackAt (Some (f0, f1)) index =
     (if index = 0 then Value f0 else if index = 1 then Value f1 else Undefined)"

text \<open>Destructuring \<open>this.props.value!\<close> throws a \<open>TypeError\<close> when the value is \<open>null\<close>.\<close>

definition getSelectedRange :: "props \<Rightarrow> state \<Rightarrow> (date \<times> date) option \<Rightarrow> error + date optional list" where
  "getSelectedRange p st fallbackRange =
     (case (if isControlled p
            then (case valueProp p of Value r \<Rightarrow> Inr r | _ \<Rightarrow> Inl TypeError)
            else Inr (selectedStart st, selectedEnd st)) of
        Inl e \<Rightarrow> Inl e
      | Inr (selStart, selEnd) \<Rightarrow>
          (let overlap = doBoundaryDatesOverlap p st selStart START;
               dateRange = [ofNullable selStart, if overlap then Undefined else ofNullable selEnd]
           in Inr (map (\<lambda>(selectedBound, index).
                     let fallbackDate = fallbackAt fallbackRange index
                     in if isDateValidAndInRange p (orNull selectedBound)
                        then selectedBound else fallbackDate)
                   (zip dateRange [0 ..< length dateRange]))))"

definition getInputDisplayString :: "datePickerUtils \<Rightarrow> props \<Rightarrow> state \<Rightarrow> boundary \<Rightarrow> string" where
  "getInputDisplayString u p st b =
     (let values = getStateKeysAndValuesForBoundary p st b in
      case hoverString values of
        Value h \<Rightarrow> h
      | _ \<Rightarrow>
        if isInputFocused values then
          (case inputString values of Value s \<Rightarrow> s | _ \<Rightarrow> '''')
        else
          (case selectedValue values of
             None \<Rightarrow> ''''
           | Some d \<Rightarrow>
               if doesEndBoundaryOverlapStartBoundary p st d b
               then overlappingDatesMessage p
               else getFormattedDateString u (Value d) p False))"

section \<open>Event handlers\<close>

text \<open>
  A handler reads \<open>this.state\<close>, merges a partial state into it with \<open>setState\<close> and
  may call a callback prop: it returns the next state and the calls made. The hovered day
  handed to the hover handler is not read and is left out.
\<close>

definition handleDateRangePickerHoverChange ::
    "props \<Rightarrow> state \<Rightarrow> dateRange option \<Rightarrow> boundary option \<Rightarrow> state" where
  "handleDateRangePickerHoverChange p st hoveredRange hoveredBoundary =
     (if \<not> isOpen st then st
      else case hoveredRange of
        None \<Rightarrow>
          (let isEndFocused = (boundaryToModify st = Some END)
           in st\<lparr> endHoverString := Null,
                  isEndInputFocused := isEndFocused,
                  isStartInputFocused := \<not> isEndFocused,
                  lastFocusedField := boundaryToModify st,
                  startHoverString := Null \<rparr>)
      | Some (hoveredStart, hoveredEnd) \<Rightarrow>
          (let isStartFocused =
                 (case hoveredBoundary of Some hb \<Rightarrow> hb = START | None \<Rightarrow> isStartInputFocused st);
               isEndFocused =
                 (case hoveredBoundary of Some hb \<Rightarrow> hb = END | None \<Rightarrow> isEndInputFocused st)
           in st\<lparr> endHoverString := Value (formatDate p hoveredEnd),
                  isEndInputFocused := isEndFocused,
                  isStartInputFocused := isStartFocused,
                  lastFocusedField := Some (if isStartFocused then START else END),
                  shouldSelectAfterUpdate := Some (selectAllOnFocus p),
                  startHoverString := Value (formatDate p hoveredStart),
                  wasLastFocusChangeDueToHover := Some True \<rparr>))"

definition handleInputFocus :: "datePickerUtils \<Rightarrow> props \<Rightarrow> state \<Rightarrow> boundary \<Rightarrow> state" where
  "handleInputFocus u p st b =
     (let values = getStateKeysAndValuesForBoundary p st b;
          inputStr = getFormattedDateString u (ofNullable (selectedValue values)) p True;
          nextBoundaryToModify =
            (if wasLastFocusChangeDueToHover st = Some True then boundaryToModify st else Some b)
      in (setIsInputFocused b True (setInputString b (Value inputStr) st))
           \<lparr> boundaryToModify := nextBoundaryToModify,
             isOpen := True,
             lastFocusedField := Some b,
             shouldSelectAfterUpdate := Some (selectAllOnFocus p),
             wasLastFocusChangeDueToHover := Some False \<rparr>)"

definition handleInputBlur ::
    "datePickerUtils \<Rightarrow> props \<Rightarrow> int \<Rightarrow> state \<Rightarrow> boundary \<Rightarrow> state \<times> callback list" where
  "handleInputBlur u p now st b =
     (let values = getStateKeysAndValuesForBoundary p st b;
          maybeNextDate = parseDate p now (inputString values);
          isValueControlled = isControlled p;
          nextState = (setIsInputFocused b False st)\<lparr>shouldSelectAfterUpdate := Some False\<rparr>
      in if isInputEmpty (inputString values) then
           (if isValueControlled then
              (setInputString b
                 (Value (getFormattedDateString u (controlledValue values) p False)) nextState, [])
            else
              (setSelectedValue b None (setInputString b Null nextState), []))
         else if \<not> isNextDateRangeValid p st maybeNextDate b then
           ((if \<not> isValueControlled
             then setSelectedValue b maybeNextDate (setInputString b Null nextState)
             else nextState),
            [OnError (getDateRangeForCallback p st maybeNextDate (Some b))])
         else (nextState, []))"

definition handleInputChange ::
    "props \<Rightarrow> int \<Rightarrow> state \<Rightarrow> string \<Rightarrow> boundary \<Rightarrow> state \<times> callback list" where
  "handleInputChange p now st inputStr b =
     (let maybeNextDate = parseDate p now (Value inputStr);
          isValueControlled = isControlled p;
          nextState = st\<lparr>shouldSelectAfterUpdate := Some False\<rparr>
      in if length inputStr = 0 then
           (let baseState = setInputString b (Value '''') nextState
            in (if isValueControlled then baseState else setSelectedValue b None baseState,
                [OnChange (getDateRangeForCallback p st None (Some b))]))
         else if isDateValidAndInRange p maybeNextDate then
           (let baseState = setInputString b (Value inputStr) (setHoverString b Null nextState)
            in (if isValueControlled then baseState else setSelectedValue b maybeNextDate baseState,
                if isNextDateRangeValid p st maybeNextDate b
                then [OnChange (getDateRangeForCallback p st maybeNextDate (Some b))]
                else []))
         else
           (setHoverString b Null (setInputString b (Value inputStr) nextState), []))"

section \<open>A configuration to run the component on\<close>

text \<open>
  A parser and a formatter for a handful of strings (the parser answers \<open>false\<close> to any
  other string), the bounds set to days 0 and 10, and \<open>selectAllOnFocus\<close> switched on.
  \<open>exampleState\<close> is an uncontrolled component whose START field has just been focused
  while day 2 is selected as END. \<open>controlledProps\<close> hands in the range from day 5 to
  day 2, and \<open>controlledState\<close> is the state built from it, before any event.
\<close>

definition exampleParse :: "string option \<Rightarrow> parsed" where
  "exampleParse s =
     (if s = Some ''day 1'' then ParsedDate (Date 86400000)
      else if s = Some ''day 2'' then ParsedDate (Date 172800000)
      else if s = Some ''day 5'' then ParsedDate (Date 432000000)
      else if s = Some ''day 99'' then ParsedDate (Date 8553600000)
      else if s = Some ''NaN'' then ParsedDate InvalidDate
      else if s = None then ParsedNull
      else ParsedFalse)"

definition exampleFormat :: "date \<Rightarrow> string" where
  "exampleFormat d =
     (case d of
        Date t \<Rightarrow>
          if t = 86400000 then ''day 1''
          else if t = 172800000 then ''day 2''
          else if t = 432000000 then ''day 5''
          else if t = 8553600000 then ''day 99''
          else ''some day''
      | InvalidDate \<Rightarrow> ''NaN'')"

definition exampleProps :: props where
  "exampleProps =
     \<lparr> allowSingleDayRange = False,
       invalidDateMessage = ''Invalid date'',
       maxDate = Date 864000000,
       minDate = Date 0,
       outOfRangeMessage = ''Out of range'',
       overlappingDatesMessage = ''Overlapping dates'',
       selectAllOnFocus = True,
       valueProp = Undefined,
       parseDateProp = exampleParse,
       formatDateProp = exampleFormat \<rparr>"

definition exampleState :: state where
  "exampleState =
     \<lparr> isOpen = True,
       boundaryToModify = Some START,
       lastFocusedField = Some START,
       formattedMinDateString = Some ''some day'',
       formattedMaxDateString = Some ''some day'',
       isStartInputFocused = True,
       isEndInputFocused = False,
       startInputString = Value '''',
       endInputString = Undefined,
       startHoverString = Undefined,
       endHoverString = Undefined,
       selectedEnd = Some (Date 172800000),
       selectedStart = None,
       shouldSelectAfterUpdate = Some True,
       wasLastFocusChangeDueToHover = Some False,
       selectedShortcutIndex = -1 \<rparr>"

definition controlledProps :: props where
  "controlledProps =
     exampleProps\<lparr>valueProp := Value (Some (Date 432000000), Some (Date 172800000))\<rparr>"

definition controlledState :: state where
  "controlledState =
     \<lparr> isOpen = False,
       boundaryToModify = None,
       lastFocusedField = None,
       formattedMinDateString = Some ''some day'',
       formattedMaxDateString = Some ''some day'',
       isStartInputFocused = False,
       isEndInputFocused = False,
       startInputString = Undefined,
       endInputString = Undefined,
       startHoverString = Undefined,
       endHoverString = Undefined,
       selectedEnd = Some (Date 172800000),
       selectedStart = Some (Date 432000000),
       shouldSelectAfterUpdate = None,
       wasLastFocusChangeDueToHover = None,
       selectedShortcutIndex = -1 \<rparr>"

definition exampleUtils :: datePickerUtils where
  "exampleUtils =
     \<lparr> getFormattedDateString = (\<lambda>d p ignoreRange.
         case d of
           Value (Date t) \<Rightarrow>
             if ignoreRange \<or> isDayInRange (Some (Date t)) (minDate p, maxDate p)
             then formatDateProp p (Date t) else outOfRangeMessage p
         | Value InvalidDate \<Rightarrow> invalidDateMessage p
         | _ \<Rightarrow> '''') \<rparr>"

section \<open>Calendar days\<close>

lemma startOfDay_eq: "startOfDay t = msPerDay * (t div msPerDay)"
  by (simp add: startOfDay_def minus_mod_eq_mult_div)

lemma startOfDay_mono: "a \<le> b \<Longrightarrow> startOfDay a \<le> startOfDay b"
  unfolding startOfDay_eq by (simp add: msPerDay_def zdiv_mono1)

section \<open>Validation of the props\<close>

text \<open>
  Claim C8. \<open>validateProps\<close> fails, with the error \<open>DATERANGEINPUT_NULL_VALUE\<close> thrown
  at once, exactly when the controlled value is literally \<open>null\<close>. Every other value
  passes: a range, the empty range \<open>[null, null]\<close>, and \<open>undefined\<close>.
\<close>

theorem validateProps_null_value:
  "(validateProps p = Inl DATERANGEINPUT_NULL_VALUE \<longleftrightarrow> valueProp p = Null) \<and>
   (valueProp p \<noteq> Null \<longrightarrow> validateProps p = Inr ()) \<and>
   validateProps (p\<lparr>valueProp := Value (None, None)\<rparr>) = Inr () \<and>
   validateProps (p\<lparr>valueProp := Undefined\<rparr>) = Inr ()"
  by (simp add: validateProps_def)

theorem validateProps_null_value_witness:
  "validateProps (exampleProps\<lparr>valueProp := Null\<rparr>) = Inl DATERANGEINPUT_NULL_VALUE \<and>
   validateProps (exampleProps\<lparr>valueProp := Value (Some (Date 0), None)\<rparr>) = Inr () \<and>
   validateProps (exampleProps\<lparr>valueProp := Value (None, None)\<rparr>) = Inr ()"
  using validateProps_null_value [of "exampleProps\<lparr>valueProp := Null\<rparr>"]
        validateProps_null_value [of "exampleProps\<lparr>valueProp := Value (Some (Date 0), None)\<rparr>"]
        validateProps_null_value [of exampleProps]
  by simp

section \<open>The validation predicates\<close>

text \<open>
  Claim C5. With bounds \<open>minDate\<close> and \<open>maxDate\<close> that are dates, a valid date passes
  \<open>isDateValidAndInRange\<close> exactly when its calendar day lies between the day of
  \<open>minDate\<close> and the day of \<open>maxDate\<close>, both included; in particular every time value
  between the two bounds passes. An Invalid Date and \<open>null\<close> fail whatever the bounds.
\<close>

theorem isDateValidAndInRange_days:
  "(minDate p = Date lo \<and> maxDate p = Date hi \<longrightarrow>
      (isDateValidAndInRange p (Some (Date t)) \<longleftrightarrow>
         startOfDay lo \<le> startOfDay t \<and> startOfDay t \<le> startOfDay hi) \<and>
      (lo \<le> t \<and> t \<le> hi \<longrightarrow> isDateValidAndInRange p (Some (Date t)))) \<and>
   \<not> isDateValidAndInRange p (Some InvalidDate) \<and>
   \<not> isDateValidAndInRange p None"
  by (simp add: isDateValidAndInRange_def startOfDay_mono)

theorem isDateValidAndInRange_days_witness:
  "isDateValidAndInRange exampleProps (Some (Date 0)) \<and>
   isDateValidAndInRange exampleProps (Some (Date 432000000)) \<and>
   isDateValidAndInRange exampleProps (Some (Date 864000000)) \<and>
   isDateValidAndInRange exampleProps (Some (Date 950399999)) \<and>
   \<not> isDateValidAndInRange exampleProps (Some (Date 950400000)) \<and>
   \<not> isDateValidAndInRange exampleProps (Some (Date (-1))) \<and>
   \<not> isDateValidAndInRange exampleProps (Some InvalidDate) \<and>
   \<not> isDateValidAndInRange exampleProps None"
  using isDateValidAndInRange_days [of exampleProps 0 864000000 0]
        isDateValidAndInRange_days [of exampleProps 0 864000000 432000000]
        isDateValidAndInRange_days [of exampleProps 0 864000000 864000000]
        isDateValidAndInRange_days [of exampleProps 0 864000000 950399999]
        isDateValidAndInRange_days [of exampleProps 0 864000000 950400000]
        isDateValidAndInRange_days [of exampleProps 0 864000000 "-1"]
  by (simp add: exampleProps_def startOfDay_def msPerDay_def)

text \<open>
  Claim C2. \<open>doBoundaryDatesOverlap\<close> compares the date with the selected date of the
  other boundary. For START it holds exactly when the date is strictly after the selected END
  date, or single-day ranges are not allowed and both fall on the same calendar day; for END
  the comparison is reversed. For two dates with the same time value it therefore holds for
  both boundaries exactly when \<open>allowSingleDayRange\<close> is false. It is false when the date
  or the other boundary's date is \<open>null\<close>.
\<close>

theorem doBoundaryDatesOverlap_iff:
  "(doBoundaryDatesOverlap p st (Some d) START \<longleftrightarrow>
      (\<exists>od. selectedEnd st = Some od \<and>
            (date_gt d od \<or> (\<not> allowSingleDayRange p \<and> isSameDay d od)))) \<and>
   (doBoundaryDatesOverlap p st (Some d) END \<longleftrightarrow>
      (\<exists>od. selectedStart st = Some od \<and>
            (date_lt d od \<or> (\<not> allowSingleDayRange p \<and> isSameDay d od)))) \<and>
   (selectedEnd st = Some (Date e) \<longrightarrow>
      (doBoundaryDatesOverlap p st (Some (Date t)) START \<longleftrightarrow>
         e < t \<or> (\<not> allowSingleDayRange p \<and> startOfDay t = startOfDay e))) \<and>
   (selectedStart st = Some (Date s) \<longrightarrow>
      (doBoundaryDatesOverlap p st (Some (Date t)) END \<longleftrightarrow>
         t < s \<or> (\<not> allowSingleDayRange p \<and> startOfDay t = startOfDay s))) \<and>
   (selectedStart st = Some (Date t) \<and> selectedEnd st = Some (Date t) \<longrightarrow>
      (doBoundaryDatesOverlap p st (Some (Date t)) START \<longleftrightarrow> \<not> allowSingleDayRange p) \<and>
      (doBoundaryDatesOverlap p st (Some (Date t)) END \<longleftrightarrow> \<not> allowSingleDayRange p)) \<and>
   \<not> doBoundaryDatesOverlap p st None b \<and>
   (selectedEnd st = None \<longrightarrow> \<not> doBoundaryDatesOverlap p st date START) \<and>
   (selectedStart st = None \<longrightarrow> \<not> doBoundaryDatesOverlap p st date END)"
  by (auto simp add: doBoundaryDatesOverlap_def getOtherBoundary_def
      getStateKeysAndValuesForBoundary_def Let_def split: option.splits)

theorem doBoundaryDatesOverlap_iff_witness:
  "doBoundaryDatesOverlap exampleProps controlledState (Some (Date 432000000)) START \<and>
   doBoundaryDatesOverlap exampleProps controlledState (Some (Date 172800000)) END \<and>
   \<not> doBoundaryDatesOverlap exampleProps exampleState (Some (Date 86400000)) START \<and>
   doBoundaryDatesOverlap exampleProps exampleState (Some (Date 172800000)) START \<and>
   doBoundaryDatesOverlap exampleProps
     (exampleState\<lparr>selectedStart := Some (Date 172800000)\<rparr>) (Some (Date 172800000)) END \<and>
   \<not> doBoundaryDatesOverlap (exampleProps\<lparr>allowSingleDayRange := True\<rparr>)
     (exampleState\<lparr>selectedStart := Some (Date 172800000)\<rparr>) (Some (Date 172800000)) START \<and>
   \<not> doBoundaryDatesOverlap (exampleProps\<lparr>allowSingleDayRange := True\<rparr>)
     (exampleState\<lparr>selectedStart := Some (Date 172800000)\<rparr>) (Some (Date 172800000)) END \<and>
   \<not> doBoundaryDatesOverlap exampleProps exampleState (Some (Date 172800000)) END"
  using doBoundaryDatesOverlap_iff [where p = exampleProps and st = controlledState
          and d = "Date 432000000" and e = 172800000 and t = 432000000 and s = 432000000]
        doBoundaryDatesOverlap_iff [where p = exampleProps and st = controlledState
          and d = "Date 172800000" and e = 172800000 and t = 172800000 and s = 432000000]
        doBoundaryDatesOverlap_iff [where p = exampleProps and st = exampleState
          and d = "Date 86400000" and e = 172800000 and t = 86400000
          and date = "Some (Date 172800000)"]
        doBoundaryDatesOverlap_iff [where p = exampleProps and st = exampleState
          and d = "Date 172800000" and e = 172800000 and t = 172800000]
        doBoundaryDatesOverlap_iff [where p = exampleProps
          and st = "exampleState\<lparr>selectedStart := Some (Date 172800000)\<rparr>"
          and d = "Date 172800000" and e = 172800000 and t = 172800000 and s = 172800000]
        doBoundaryDatesOverlap_iff [where p = "exampleProps\<lparr>allowSingleDayRange := True\<rparr>"
          and st = "exampleState\<lparr>selectedStart := Some (Date 172800000)\<rparr>"
          and d = "Date 172800000" and e = 172800000 and t = 172800000 and s = 172800000]
  by (simp add: exampleProps_def exampleState_def controlledState_def startOfDay_def msPerDay_def)

section \<open>Parsing the text of a field\<close>

text \<open>
  Claim C10. The parse wrapper returns \<open>null\<close> for \<open>undefined\<close> and for a string equal
  to \<open>outOfRangeMessage\<close> or to \<open>invalidDateMessage\<close>, without consulting the injected
  parser. So typing such a string commits no date: a non-empty one fires no \<open>onChange\<close>
  (an empty one fires it with \<open>null\<close> for the boundary), and each selected value is
  afterwards \<open>null\<close> or what it was.
\<close>

theorem parseDate_messages_null:
  "parseDate p now Undefined = None \<and>
   parseDate p now (Value (outOfRangeMessage p)) = None \<and>
   parseDate p now (Value (invalidDateMessage p)) = None \<and>
   (s = outOfRangeMessage p \<or> s = invalidDateMessage p \<longrightarrow>
      snd (handleInputChange p now st s b) =
        (if s = [] then [OnChange (getDateRangeForCallback p st None (Some b))] else []) \<and>
      (\<forall>b'. selectedValue (getStateKeysAndValuesForBoundary p
               (fst (handleInputChange p now st s b)) b') \<in>
             {None, selectedValue (getStateKeysAndValuesForBoundary p st b')}))"
  by (auto simp add: parseDate_def handleInputChange_def isDateValidAndInRange_def Let_def
      getStateKeysAndValuesForBoundary_def setInputString_def setHoverString_def
      setSelectedValue_def)

theorem parseDate_messages_null_witness:
  "parseDate exampleProps 7 (Value ''Out of range'') = None \<and>
   parseDate exampleProps 7 (Value ''Invalid date'') = None \<and>
   snd (handleInputChange exampleProps 7 exampleState ''Out of range'' START) = [] \<and>
   snd (handleInputChange exampleProps 7 exampleState ''Invalid date'' END) = []"
  using parseDate_messages_null [of exampleProps 7 "''Out of range''" exampleState START]
        parseDate_messages_null [of exampleProps 7 "''Invalid date''" exampleState END]
  by (simp add: exampleProps_def)

text \<open>
  Claim C7. When the injected parser is consulted and answers \<open>false\<close>, the parse wrapper
  returns the current date, which is a valid date. (The parser is consulted for every
  string but the two messages of claim C10, on which the wrapper returns \<open>null\<close>.) So
  when the current day is within the bounds the text passes \<open>isDateValidAndInRange\<close>,
  and typing it fires \<open>onChange\<close> with the current date unless it overlaps the other
  boundary.
\<close>

theorem parseDate_false_is_now:
  assumes "parseDateProp p (Some s) = ParsedFalse"
  shows
  "parseDate p now (Value s) =
     (if s = outOfRangeMessage p \<or> s = invalidDateMessage p then None else Some (Date now)) \<and>
   (s \<noteq> outOfRangeMessage p \<and> s \<noteq> invalidDateMessage p \<longrightarrow>
      isValid (parseDate p now (Value s)) \<and>
      (isDayInRange (Some (Date now)) (minDate p, maxDate p) \<longrightarrow>
         isDateValidAndInRange p (parseDate p now (Value s)) \<and>
         (s \<noteq> [] \<and> \<not> doBoundaryDatesOverlap p st (Some (Date now)) b \<longrightarrow>
            snd (handleInputChange p now st s b) =
              [OnChange (getDateRangeForCallback p st (Some (Date now)) (Some b))])))"
  using assms
  by (simp add: parseDate_def isDateValidAndInRange_def handleInputChange_def
      isNextDateRangeValid_def Let_def)

theorem parseDate_false_is_now_witness:
  "exampleParse (Some ''zzz'') = ParsedFalse \<and>
   parseDate exampleProps 90000000 (Value ''zzz'') = Some (Date 90000000) \<and>
   isDateValidAndInRange exampleProps (parseDate exampleProps 90000000 (Value ''zzz'')) \<and>
   snd (handleInputChange exampleProps 90000000 exampleState ''zzz'' START) =
     [OnChange (Some (Date 90000000), Some (Date 172800000))]"
  using parseDate_false_is_now [where p = exampleProps and s = "''zzz''" and now = 90000000
          and st = exampleState and b = START]
  by (simp add: exampleProps_def exampleParse_def exampleState_def doBoundaryDatesOverlap_def
      getOtherBoundary_def getStateKeysAndValuesForBoundary_def getDateRangeForCallback_def
      isDateValidAndInRange_def startOfDay_def msPerDay_def Let_def)

section \<open>The effective range\<close>

lemma orNull_ofNullable: "orNull (ofNullable x) = x"
  by (cases x) simp_all

text \<open>
  Claim C1, as stated, fails: in controlled mode too, a boundary value that is not a valid
  date within the bounds is replaced by the fallback. Here the host hands in day 99, above
  \<open>maxDate\<close>, as START and no END; nothing overlaps, yet the START returned is the
  fallback (\<open>undefined\<close> when no fallback range is given), not the external value.
\<close>

theorem getSelectedRange_controlled_filters:
  "isControlled (exampleProps\<lparr>valueProp := Value (Some (Date 8553600000), None)\<rparr>) \<and>
   \<not> doBoundaryDatesOverlap (exampleProps\<lparr>valueProp := Value (Some (Date 8553600000), None)\<rparr>)
       (controlledState\<lparr>selectedStart := Some (Date 8553600000), selectedEnd := None\<rparr>)
       (Some (Date 8553600000)) START \<and>
   getSelectedRange (exampleProps\<lparr>valueProp := Value (Some (Date 8553600000), None)\<rparr>)
       (controlledState\<lparr>selectedStart := Some (Date 8553600000), selectedEnd := None\<rparr>)
       (Some (Date 0, Date 0)) = Inr [Value (Date 0), Value (Date 0)] \<and>
   getSelectedRange (exampleProps\<lparr>valueProp := Value (Some (Date 8553600000), None)\<rparr>)
       (controlledState\<lparr>selectedStart := Some (Date 8553600000), selectedEnd := None\<rparr>)
       None = Inr [Undefined, Undefined]"
  by (simp add: getSelectedRange_def isControlled_def doBoundaryDatesOverlap_def
      getOtherBoundary_def getStateKeysAndValuesForBoundary_def isDateValidAndInRange_def
      exampleProps_def controlledState_def startOfDay_def msPerDay_def Let_def)

text \<open>
  Claim C1, amended. Let \<open>(s, e)\<close> be the external value in controlled mode and the
  internal selection in uncontrolled mode. In both modes \<open>getSelectedRange\<close> returns \<open>s\<close>
  as START when \<open>s\<close> is a valid date within the bounds, and \<open>e\<close> as END when moreover
  \<open>s\<close> does not overlap the END date of the state and \<open>e\<close> is a valid date within the
  bounds; otherwise the element is the fallback of its index, \<open>undefined\<close> when no
  fallback range is given.
\<close>

theorem getSelectedRange_filtered:
  assumes "if isControlled p then valueProp p = Value (s, e)
           else selectedStart st = s \<and> selectedEnd st = e"
  shows
  "getSelectedRange p st fallbackRange = Inr
     [if isDateValidAndInRange p s then ofNullable s else fallbackAt fallbackRange 0,
      if \<not> doBoundaryDatesOverlap p st s START \<and> isDateValidAndInRange p e
      then ofNullable e else fallbackAt fallbackRange 1]"
proof -
  have src: "(if isControlled p
              then (case valueProp p of Value r \<Rightarrow> Inr r | _ \<Rightarrow> Inl TypeError)
              else Inr (selectedStart st, selectedEnd st)) = Inr (s, e)"
    using assms by (simp split: if_splits)
  have none: "\<not> isDateValidAndInRange p None"
    by (simp add: isDateValidAndInRange_def)
  show ?thesis
    unfolding getSelectedRange_def src
    by (simp add: Let_def orNull_ofNullable none)
qed

theorem getSelectedRange_filtered_witness:
  "getSelectedRange controlledProps controlledState (Some (Date 0, Date 0)) =
     Inr [Value (Date 432000000), Value (Date 0)] \<and>
   getSelectedRange exampleProps exampleState None = Inr [Undefined, Value (Date 172800000)] \<and>
   getSelectedRange (exampleProps\<lparr>valueProp := Value (Some (Date 86400000), Some InvalidDate)\<rparr>)
     (exampleState\<lparr>selectedStart := Some (Date 86400000), selectedEnd := Some InvalidDate\<rparr>)
     (Some (Date 0, Date 0)) = Inr [Value (Date 86400000), Value (Date 0)]"
  using getSelectedRange_filtered [where p = controlledProps and st = controlledState
          and s = "Some (Date 432000000)" and e = "Some (Date 172800000)"
          and fallbackRange = "Some (Date 0, Date 0)"]
        getSelectedRange_filtered [where p = exampleProps and st = exampleState
          and s = None and e = "Some (Date 172800000)" and fallbackRange = None]
        getSelectedRange_filtered [where
              p = "exampleProps\<lparr>valueProp := Value (Some (Date 86400000), Some InvalidDate)\<rparr>"
          and st = "exampleState\<lparr>selectedStart := Some (Date 86400000),
                                  selectedEnd := Some InvalidDate\<rparr>"
          and s = "Some (Date 86400000)" and e = "Some InvalidDate"
          and fallbackRange = "Some (Date 0, Date 0)"]
  by (simp add: isControlled_def doBoundaryDatesOverlap_def
      getOtherBoundary_def getStateKeysAndValuesForBoundary_def isDateValidAndInRange_def
      exampleProps_def controlledProps_def exampleState_def controlledState_def
      startOfDay_def msPerDay_def Let_def)

section \<open>The display string\<close>

text \<open>
  Claim C9. \<open>getInputDisplayString\<close> follows this precedence, \<open>v\<close> being the values of
  the boundary: a hover string that is set is displayed; otherwise a focused field displays
  its raw input string, the empty string when that is unset; otherwise a field with no
  selected value displays the empty string, the END field whose selected value overlaps the
  START value displays \<open>overlappingDatesMessage\<close>, and any other selected value displays
  its formatted date string.
\<close>

theorem getInputDisplayString_precedence:
  assumes v: "v = getStateKeysAndValuesForBoundary p st b"
  shows
  "(hoverString v = Value h \<longrightarrow> getInputDisplayString u p st b = h) \<and>
   ((hoverString v = Undefined \<or> hoverString v = Null) \<and> isInputFocused v \<longrightarrow>
      getInputDisplayString u p st b = (case inputString v of Value s \<Rightarrow> s | _ \<Rightarrow> '''')) \<and>
   ((hoverString v = Undefined \<or> hoverString v = Null) \<and> \<not> isInputFocused v \<and>
    selectedValue v = None \<longrightarrow> getInputDisplayString u p st b = '''') \<and>
   ((hoverString v = Undefined \<or> hoverString v = Null) \<and> \<not> isInputFocused v \<and>
    selectedValue v = Some d \<and> b = END \<and> doBoundaryDatesOverlap p st (Some d) END \<longrightarrow>
      getInputDisplayString u p st b = overlappingDatesMessage p) \<and>
   ((hoverString v = Undefined \<or> hoverString v = Null) \<and> \<not> isInputFocused v \<and>
    selectedValue v = Some d \<and> (b = START \<or> \<not> doBoundaryDatesOverlap p st (Some d) END) \<longrightarrow>
      getInputDisplayString u p st b = getFormattedDateString u (Value d) p False)"
  unfolding v
  by (cases b)
     (auto simp add: getInputDisplayString_def doesEndBoundaryOverlapStartBoundary_def Let_def)

theorem getInputDisplayString_precedence_witness:
  "getInputDisplayString exampleUtils exampleProps
     (exampleState\<lparr>startHoverString := Value ''day 1'', startInputString := Value ''da''\<rparr>) START
     = ''day 1'' \<and>
   getInputDisplayString exampleUtils exampleProps
     (exampleState\<lparr>startInputString := Value ''Overl''\<rparr>) START = ''Overl'' \<and>
   getInputDisplayString exampleUtils exampleProps
     (exampleState\<lparr>isStartInputFocused := False\<rparr>) START = '''' \<and>
   getInputDisplayString exampleUtils controlledProps controlledState END = ''Overlapping dates'' \<and>
   getInputDisplayString exampleUtils controlledProps controlledState START = ''day 5'' \<and>
   getInputDisplayString exampleUtils exampleProps exampleState END = ''day 2''"
  using getInputDisplayString_precedence [OF refl, where u = exampleUtils and p = exampleProps
          and st = "exampleState\<lparr>startHoverString := Value ''day 1'',
                                  startInputString := Value ''da''\<rparr>"
          and b = START and h = "''day 1''"]
        getInputDisplayString_precedence [OF refl, where u = exampleUtils and p = exampleProps
          and st = "exampleState\<lparr>startInputString := Value ''Overl''\<rparr>" and b = START]
        getInputDisplayString_precedence [OF refl, where u = exampleUtils and p = exampleProps
          and st = "exampleState\<lparr>isStartInputFocused := False\<rparr>" and b = START]
        getInputDisplayString_precedence [OF refl, where u = exampleUtils and p = controlledProps
          and st = controlledState and b = END and d = "Date 172800000"]
        getInputDisplayString_precedence [OF refl, where u = exampleUtils and p = controlledProps
          and st = controlledState and b = START and d = "Date 432000000"]
        getInputDisplayString_precedence [OF refl, where u = exampleUtils and p = exampleProps
          and st = exampleState and b = END and d = "Date 172800000"]
  by (simp add: controlledProps_def controlledState_def exampleState_def
      exampleProps_def exampleFormat_def exampleUtils_def
      doBoundaryDatesOverlap_def getOtherBoundary_def getStateKeysAndValuesForBoundary_def
      startOfDay_def msPerDay_def Let_def)

section \<open>Typing in a field\<close>




section \<open>Leaving a field\<close>

text \<open>
  Claim C4, as stated, fails in its controlled half: the focus flag is not the only field
  that changes. With \<open>selectAllOnFocus\<close> on, focusing the START field of the controlled
  component sets \<open>shouldSelectAfterUpdate\<close>; the blur that follows finds the overlapping
  ''day 5'' in the field and resets \<open>shouldSelectAfterUpdate\<close> to false as well.
\<close>

theorem handleInputBlur_controlled_resets_select:
  "isControlled controlledProps \<and>
   inputString (getStateKeysAndValuesForBoundary controlledProps
     (handleInputFocus exampleUtils controlledProps controlledState START) START) = Value ''day 5'' \<and>
   doBoundaryDatesOverlap controlledProps
     (handleInputFocus exampleUtils controlledProps controlledState START)
     (parseDate controlledProps 7 (Value ''day 5'')) START \<and>
   shouldSelectAfterUpdate
     (handleInputFocus exampleUtils controlledProps controlledState START) = Some True \<and>
   shouldSelectAfterUpdate
     (fst (handleInputBlur exampleUtils controlledProps 7
        (handleInputFocus exampleUtils controlledProps controlledState START) START)) = Some False \<and>
   fst (handleInputBlur exampleUtils controlledProps 7
        (handleInputFocus exampleUtils controlledProps controlledState START) START) \<noteq>
     (handleInputFocus exampleUtils controlledProps controlledState START)
       \<lparr>isStartInputFocused := False\<rparr>"
  by (simp add: handleInputBlur_def handleInputFocus_def controlledProps_def controlledState_def
      exampleProps_def exampleParse_def exampleFormat_def exampleUtils_def parseDate_def
      isNextDateRangeValid_def doBoundaryDatesOverlap_def isControlled_def
      getOtherBoundary_def getStateKeysAndValuesForBoundary_def
      setSelectedValue_def setInputString_def setIsInputFocused_def
      isDateValidAndInRange_def startOfDay_def msPerDay_def Let_def)

text \<open>
  Claim C4, amended. On blur of a field whose input string is not empty and whose parsed
  date \<open>d\<close> is invalid, out of range or overlapping, \<open>onError\<close> is called with \<open>d\<close>
  and the selected date of the other boundary. In uncontrolled mode \<open>d\<close> is stored as the
  selected value of the boundary and its input string is cleared; in controlled mode no
  selection and no input string changes. In both modes the focus flag of the boundary and
  \<open>shouldSelectAfterUpdate\<close> are set to false, and nothing else changes.
\<close>

theorem handleInputBlur_invalid:
  assumes d: "d = parseDate p now (inputString (getStateKeysAndValuesForBoundary p st b))"
      and nonempty: "\<not> isInputEmpty (inputString (getStateKeysAndValuesForBoundary p st b))"
      and bad: "\<not> isDateValidAndInRange p d \<or> doBoundaryDatesOverlap p st d b"
  shows
  "snd (handleInputBlur u p now st b) =
     [OnError (if b = START then (d, selectedEnd st) else (selectedStart st, d))] \<and>
   (\<not> isControlled p \<longrightarrow>
      fst (handleInputBlur u p now st b) =
        setSelectedValue b d (setInputString b Null
          (setIsInputFocused b False (st\<lparr>shouldSelectAfterUpdate := Some False\<rparr>)))) \<and>
   (isControlled p \<longrightarrow>
      fst (handleInputBlur u p now st b) =
        setIsInputFocused b False (st\<lparr>shouldSelectAfterUpdate := Some False\<rparr>))"
  using nonempty bad unfolding d
  by (cases b)
     (auto simp add: handleInputBlur_def isNextDateRangeValid_def getDateRangeForCallback_def
      getOtherBoundary_def getStateKeysAndValuesForBoundary_def Let_def
      setIsInputFocused_def setInputString_def setSelectedValue_def)

theorem handleInputBlur_invalid_witness:
  "handleInputBlur exampleUtils exampleProps 7
     (fst (handleInputChange exampleProps 7 exampleState ''day 99'' START)) START =
     (exampleState\<lparr>startInputString := Null, startHoverString := Null,
                    isStartInputFocused := False, selectedStart := Some (Date 8553600000),
                    shouldSelectAfterUpdate := Some False\<rparr>,
      [OnError (Some (Date 8553600000), Some (Date 172800000))]) \<and>
   handleInputBlur exampleUtils exampleProps 7
     (fst (handleInputChange exampleProps 7 exampleState ''day 5'' START)) START =
     (exampleState\<lparr>startInputString := Null, startHoverString := Null,
                    isStartInputFocused := False, selectedStart := Some (Date 432000000),
                    shouldSelectAfterUpdate := Some False\<rparr>,
      [OnError (Some (Date 432000000), Some (Date 172800000))]) \<and>
   handleInputBlur exampleUtils exampleProps 7
     (fst (handleInputChange exampleProps 7 exampleState ''NaN'' START)) START =
     (exampleState\<lparr>startInputString := Null, startHoverString := Null,
                    isStartInputFocused := False, selectedStart := Some InvalidDate,
                    shouldSelectAfterUpdate := Some False\<rparr>,
      [OnError (Some InvalidDate, Some (Date 172800000))]) \<and>
   handleInputBlur exampleUtils controlledProps 7
     (handleInputFocus exampleUtils controlledProps controlledState START) START =
     ((handleInputFocus exampleUtils controlledProps controlledState START)
        \<lparr>isStartInputFocused := False, shouldSelectAfterUpdate := Some False\<rparr>,
      [OnError (Some (Date 432000000), Some (Date 172800000))])"
  using handleInputBlur_invalid [OF refl, where u = exampleUtils and p = exampleProps and now = 7
          and st = "fst (handleInputChange exampleProps 7 exampleState ''day 99'' START)"
          and b = START]
        handleInputBlur_invalid [OF refl, where u = exampleUtils and p = exampleProps and now = 7
          and st = "fst (handleInputChange exampleProps 7 exampleState ''day 5'' START)"
          and b = START]
        handleInputBlur_invalid [OF refl, where u = exampleUtils and p = exampleProps and now = 7
          and st = "fst (handleInputChange exampleProps 7 exampleState ''NaN'' START)"
          and b = START]
        handleInputBlur_invalid [OF refl, where u = exampleUtils and p = controlledProps and now = 7
          and st = "handleInputFocus exampleUtils controlledProps controlledState START"
          and b = START]
  by (simp add: handleInputChange_def handleInputFocus_def
      controlledProps_def controlledState_def exampleState_def
      exampleProps_def exampleParse_def exampleFormat_def exampleUtils_def parseDate_def
      isNextDateRangeValid_def doBoundaryDatesOverlap_def isControlled_def
      getOtherBoundary_def getStateKeysAndValuesForBoundary_def
      setSelectedValue_def setInputString_def setIsInputFocused_def setHoverString_def
      isDateValidAndInRange_def startOfDay_def msPerDay_def Let_def prod_eq_iff)

section \<open>The pointer leaves the calendar\<close>

text \<open>
  Claim C6, as stated, fails in its last part: the handler does not touch
  \<open>wasLastFocusChangeDueToHover\<close>. Hovering the calendar sets the flag; when the pointer
  then leaves, the flag is still set.
\<close>

theorem hover_leave_keeps_hover_flag:
  "isOpen exampleState \<and>
   wasLastFocusChangeDueToHover exampleState = Some False \<and>
   wasLastFocusChangeDueToHover
     (handleDateRangePickerHoverChange exampleProps exampleState
        (Some (Some (Date 86400000), Some (Date 172800000))) (Some END)) = Some True \<and>
   isOpen (handleDateRangePickerHoverChange exampleProps exampleState
        (Some (Some (Date 86400000), Some (Date 172800000))) (Some END)) \<and>
   wasLastFocusChangeDueToHover
     (handleDateRangePickerHoverChange exampleProps
        (handleDateRangePickerHoverChange exampleProps exampleState
           (Some (Some (Date 86400000), Some (Date 172800000))) (Some END)) None None)
     = Some True"
  by (simp add: handleDateRangePickerHoverChange_def exampleState_def)

text \<open>
  Claim C6, amended. When a hover change carries no hovered range while the popover is open,
  the focus goes to the field of \<open>boundaryToModify\<close> (START when it is unset or START),
  both hover strings are cleared and \<open>lastFocusedField\<close> becomes \<open>boundaryToModify\<close>;
  \<open>wasLastFocusChangeDueToHover\<close> and every other field stay as they were. A second
  such event runs the same path and changes nothing further.
\<close>

theorem hover_leave_restores_focus:
  "(isOpen st \<longrightarrow>
      handleDateRangePickerHoverChange p st None hb =
        st\<lparr> isStartInputFocused := (boundaryToModify st \<noteq> Some END),
            isEndInputFocused := (boundaryToModify st = Some END),
            startHoverString := Null,
            endHoverString := Null,
            lastFocusedField := boundaryToModify st \<rparr> \<and>
      wasLastFocusChangeDueToHover (handleDateRangePickerHoverChange p st None hb) =
        wasLastFocusChangeDueToHover st) \<and>
   handleDateRangePickerHoverChange p (handleDateRangePickerHoverChange p st None hb) None hb' =
     handleDateRangePickerHoverChange p st None hb"
  by (simp add: handleDateRangePickerHoverChange_def Let_def)

theorem hover_leave_restores_focus_witness:
  "isStartInputFocused (handleDateRangePickerHoverChange exampleProps
      (handleDateRangePickerHoverChange exampleProps exampleState
         (Some (Some (Date 86400000), Some (Date 172800000))) (Some END)) None None) \<and>
   \<not> isEndInputFocused (handleDateRangePickerHoverChange exampleProps
      (handleDateRangePickerHoverChange exampleProps exampleState
         (Some (Some (Date 86400000), Some (Date 172800000))) (Some END)) None None) \<and>
   startHoverString (handleDateRangePickerHoverChange exampleProps
      (handleDateRangePickerHoverChange exampleProps exampleState
         (Some (Some (Date 86400000), Some (Date 172800000))) (Some END)) None None) = Null \<and>
   endHoverString (handleDateRangePickerHoverChange exampleProps
      (handleDateRangePickerHoverChange exampleProps exampleState
         (Some (Some (Date 86400000), Some (Date 172800000))) (Some END)) None None) = Null"
  using hover_leave_restores_focus [where p = exampleProps and hb = None and hb' = None
          and st = "handleDateRangePickerHoverChange exampleProps exampleState
                      (Some (Some (Date 86400000), Some (Date 172800000))) (Some END)"]
  by (simp add: handleDateRangePickerHoverChange_def exampleState_def)

end
